theory Spec2Isabelle
  imports Main "HOL-Library.Char_ord" "HOL-Library.List_Lexorder" "HOL-Library.Multiset"
begin

section \<open>Python strings\<close>

text \<open>
  A Python \<open>str\<close> is a sequence of code points. The model reads a \<^typ>\<open>char\<close> as the code
  point of the same number, so a \<^typ>\<open>string\<close> is a Python string over U+0000..U+00FF.
  The predicates below are Python's on that range: the whitespace that \<open>str.strip()\<close>
  removes, and the characters \<open>str.isalnum()\<close> accepts (letters, decimal digits and the
  numeric characters of Latin-1).
\<close>

definition isspace_char :: "char \<Rightarrow> bool" where
  "isspace_char c =
     (let n = (of_char c :: nat)
      in (9 \<le> n \<and> n \<le> 13) \<or> (28 \<le> n \<and> n \<le> 32) \<or> n = 133 \<or> n = 160)"

definition isalnum_char :: "char \<Rightarrow> bool" where
  "isalnum_char c =
     (let n = (of_char c :: nat)
      in (48 \<le> n \<and> n \<le> 57) \<or> (65 \<le> n \<and> n \<le> 90) \<or> (97 \<le> n \<and> n \<le> 122)
         \<or> n = 170 \<or> n = 178 \<or> n = 179 \<or> n = 181 \<or> n = 185 \<or> n = 186
         \<or> (188 \<le> n \<and> n \<le> 190) \<or> (192 \<le> n \<and> n \<le> 214)
         \<or> (216 \<le> n \<and> n \<le> 246) \<or> (248 \<le> n \<and> n \<le> 255))"

definition strip :: "string \<Rightarrow> string" where
  \<comment> \<open>\<open>s.strip()\<close>\<close>
  "strip s = rev (dropWhile isspace_char (rev (dropWhile isspace_char s)))"

definition replace :: "char \<Rightarrow> string \<Rightarrow> string" where
  \<comment> \<open>\<open>s.replace(c, '')\<close>\<close>
  "replace c s = filter (\<lambda>x. x \<noteq> c) s"

definition isalnum :: "string \<Rightarrow> bool" where
  \<comment> \<open>\<open>s.isalnum()\<close>: every character is alphanumeric and there is at least one\<close>
  "isalnum s = (s \<noteq> [] \<and> list_all isalnum_char s)"

definition startswith :: "string \<Rightarrow> string \<Rightarrow> bool" where
  "startswith s p = (take (length p) s = p)"

fun split_on :: "char \<Rightarrow> string \<Rightarrow> string list" where
  \<comment> \<open>\<open>s.split(sep)\<close> for a separator of one character\<close>
  "split_on sep [] = [[]]"
| "split_on sep (c # cs) =
     (if c = sep then [] # split_on sep cs
      else (case split_on sep cs of
              [] \<Rightarrow> [[c]]
            | w # ws \<Rightarrow> (c # w) # ws))"

section \<open>The SQL \<open>LIKE\<close> operator of SQLite\<close>

definition sqlite3Tolower :: "char \<Rightarrow> char" where
  \<comment> \<open>SQLite folds the case of ASCII letters only\<close>
  "sqlite3Tolower c =
     (let n = (of_char c :: nat)
      in if 65 \<le> n \<and> n \<le> 90 then char_of (n + 32) else c)"

text \<open>
  \<open>like pattern text\<close> is \<open>text LIKE pattern\<close>: \<open>%\<close> matches any sequence of characters,
  \<open>_\<close> matches any one character, every other character matches itself up to the case
  of ASCII letters. No escape character is set.
\<close>

fun like :: "string \<Rightarrow> string \<Rightarrow> bool" where
  "like [] s = (s = [])"
| "like (p # ps) [] = (p = CHR ''%'' \<and> like ps [])"
| "like (p # ps) (c # cs) =
     (if p = CHR ''%'' then like ps (c # cs) \<or> like (p # ps) cs
      else if p = CHR ''_'' then like ps cs
      else sqlite3Tolower p = sqlite3Tolower c \<and> like ps cs)"

section \<open>The store: tables \<open>users\<close>, \<open>messages\<close>, \<open>sessions\<close>\<close>

text \<open>
  A timestamp is a number of microseconds. SQLite compares the stored texts; the text
  of \<open>CURRENT_TIMESTAMP\<close> (whole seconds) and the text the \<open>sqlite3\<close> module stores for
  a \<open>datetime\<close> (with its microseconds, when it has any) compare as their numbers do.
  The password hash of werkzeug is kept symbolic: the salt and the password it was made
  from, compared by \<open>check_password_hash\<close>.
\<close>

datatype pwhash = Pbkdf2 string string

record user =
  u_id :: nat
  u_username :: string
  u_password_hash :: pwhash
  u_public_key :: string
  u_created_at :: nat

record message =
  m_id :: nat
  m_sender_username :: string
  m_receiver_username :: string
  m_encrypted_content :: string
  m_iv :: string
  m_encrypted_session_key :: "string option"
  m_timestamp :: nat

record session =
  s_id :: nat
  s_username :: string
  s_session_token :: string
  s_expires_at :: nat
  s_created_at :: nat

text \<open>
  Each table is the list of its rows in insertion order. The \<open>seq_\<close> fields are the
  \<open>AUTOINCREMENT\<close> counters: the largest id the table has ever used.
\<close>

record db =
  users :: "user list"
  messages :: "message list"
  sessions :: "session list"
  seq_users :: nat
  seq_messages :: nat
  seq_sessions :: nat

text \<open>
  What \<open>sqlite3\<close> does in one call of a \<open>Database\<close> method: it works, or
  \<open>sqlite3.connect\<close> raises, or a statement (or the commit) raises
  \<open>sqlite3.OperationalError\<close>. A method that reaches its \<open>except\<close> block after a
  failed connect calls \<open>conn.close()\<close> on a name that was never bound.
\<close>

datatype fault = NoFault | ConnectFails | ExecuteFails

datatype exn = OperationalError | UnboundLocalError | IndexError

type_synonym 'a py = "exn + 'a"

section \<open>database.py\<close>

definition create_user :: "fault \<Rightarrow> nat \<Rightarrow> db \<Rightarrow> string \<Rightarrow> pwhash \<Rightarrow> string \<Rightarrow> (bool \<times> db) py" where
  "create_user f now d username password_hash public_key =
     (case f of
        ConnectFails \<Rightarrow> Inl OperationalError
      | ExecuteFails \<Rightarrow> Inl OperationalError
      | NoFault \<Rightarrow>
          if username \<in> set (map u_username (users d))
          then Inr (False, d)
          else Inr (True,
                 d\<lparr>users := users d @
                      [\<lparr>u_id = Suc (seq_users d), u_username = username,
                        u_password_hash = password_hash, u_public_key = public_key,
                        u_created_at = now\<rparr>],
                   seq_users := Suc (seq_users d)\<rparr>))"

definition get_user :: "fault \<Rightarrow> db \<Rightarrow> string \<Rightarrow> user option py" where
  "get_user f d username =
     (case f of
        NoFault \<Rightarrow> Inr (find (\<lambda>u. u_username u = username) (users d))
      | _ \<Rightarrow> Inl OperationalError)"

definition get_user_public_key :: "fault \<Rightarrow> db \<Rightarrow> string \<Rightarrow> string option py" where
  "get_user_public_key f d username =
     (case f of
        NoFault \<Rightarrow>
          Inr (map_option u_public_key (find (\<lambda>u. u_username u = username) (users d)))
      | _ \<Rightarrow> Inl OperationalError)"

definition store_message ::
  "fault \<Rightarrow> nat \<Rightarrow> db \<Rightarrow> string \<Rightarrow> string \<Rightarrow> string \<Rightarrow> string \<Rightarrow> string option \<Rightarrow> (bool \<times> db) py" where
  "store_message f now d sender receiver encrypted_content iv encrypted_session_key =
     (case f of
        ConnectFails \<Rightarrow> Inl UnboundLocalError
      | ExecuteFails \<Rightarrow> Inr (False, d)
      | NoFault \<Rightarrow>
          Inr (True,
            d\<lparr>messages := messages d @
                 [\<lparr>m_id = Suc (seq_messages d), m_sender_username = sender,
                   m_receiver_username = receiver, m_encrypted_content = encrypted_content,
                   m_iv = iv, m_encrypted_session_key = encrypted_session_key,
                   m_timestamp = now\<rparr>],
              seq_messages := Suc (seq_messages d)\<rparr>))"

text \<open>
  \<open>ORDER BY timestamp ASC\<close> is a stable sort of the rows in insertion order: SQL leaves
  the order of rows with equal timestamps open, and the model keeps them as inserted.
  \<open>if other_username:\<close> is Python's truth test: \<open>None\<close> and the empty string both take
  the second query.
\<close>

definition get_messages :: "fault \<Rightarrow> db \<Rightarrow> string \<Rightarrow> string option \<Rightarrow> message list py" where
  "get_messages f d username other_username =
     (case f of
        NoFault \<Rightarrow>
          (case other_username of
             Some other \<Rightarrow>
               if other \<noteq> []
               then Inr (sort_key m_timestamp
                      (filter (\<lambda>m. (m_sender_username m = username \<and> m_receiver_username m = other)
                                   \<or> (m_sender_username m = other \<and> m_receiver_username m = username))
                         (messages d)))
               else Inr (sort_key m_timestamp
                      (filter (\<lambda>m. m_sender_username m = username \<or> m_receiver_username m = username)
                         (messages d)))
           | None \<Rightarrow>
               Inr (sort_key m_timestamp
                 (filter (\<lambda>m. m_sender_username m = username \<or> m_receiver_username m = username)
                    (messages d))))
      | _ \<Rightarrow> Inl OperationalError)"

definition contact_username :: "string \<Rightarrow> message \<Rightarrow> string" where
  \<comment> \<open>\<open>CASE WHEN sender_username = ? THEN receiver_username ELSE sender_username END\<close>\<close>
  "contact_username username m =
     (if m_sender_username m = username then m_receiver_username m else m_sender_username m)"

definition order_by_desc :: "('a \<Rightarrow> nat) \<Rightarrow> 'a list \<Rightarrow> 'a list" where
  \<comment> \<open>\<open>ORDER BY key DESC\<close>; rows with equal keys keep their order\<close>
  "order_by_desc key rows = rev (sort_key key (rev rows))"

definition last_message_time :: "string \<Rightarrow> message list \<Rightarrow> string \<Rightarrow> nat" where
  \<comment> \<open>\<open>MAX(timestamp)\<close> over the group of one contact\<close>
  "last_message_time username rows c =
     Max (set (map m_timestamp (filter (\<lambda>m. contact_username username m = c) rows)))"

text \<open>
  The query of \<open>get_conversations\<close>: the rows of the user, grouped by the contact
  (\<open>GROUP BY\<close> emits the groups in the order of their keys), each group reduced to its
  contact and \<open>MAX(timestamp)\<close>, ordered by that maximum, largest first.
\<close>

definition get_conversations :: "fault \<Rightarrow> db \<Rightarrow> string \<Rightarrow> (string \<times> nat) list py" where
  "get_conversations f d username =
     (case f of
        NoFault \<Rightarrow>
          (let rows = filter (\<lambda>m. m_sender_username m = username \<or> m_receiver_username m = username)
                        (messages d);
               groups = sort (remdups (map (contact_username username) rows))
           in Inr (order_by_desc snd
                (map (\<lambda>c. (c, last_message_time username rows c)) groups)))
      | _ \<Rightarrow> Inl OperationalError)"

definition create_session :: "fault \<Rightarrow> nat \<Rightarrow> db \<Rightarrow> string \<Rightarrow> string \<Rightarrow> nat \<Rightarrow> (bool \<times> db) py" where
  "create_session f now d username session_token expires_at =
     (case f of
        ConnectFails \<Rightarrow> Inl UnboundLocalError
      | ExecuteFails \<Rightarrow> Inr (False, d)
      | NoFault \<Rightarrow>
          if session_token \<in> set (map s_session_token (sessions d))
          then Inr (False, d)
          else Inr (True,
                 d\<lparr>sessions := sessions d @
                      [\<lparr>s_id = Suc (seq_sessions d), s_username = username,
                        s_session_token = session_token, s_expires_at = expires_at,
                        s_created_at = now\<rparr>],
                   seq_sessions := Suc (seq_sessions d)\<rparr>))"

definition get_session :: "fault \<Rightarrow> nat \<Rightarrow> db \<Rightarrow> string \<Rightarrow> session option py" where
  \<comment> \<open>\<open>now\<close> is \<open>CURRENT_TIMESTAMP\<close>\<close>
  "get_session f now d session_token =
     (case f of
        NoFault \<Rightarrow>
          Inr (find (\<lambda>s. s_session_token s = session_token \<and> now < s_expires_at s) (sessions d))
      | _ \<Rightarrow> Inl OperationalError)"

definition delete_session :: "fault \<Rightarrow> db \<Rightarrow> string \<Rightarrow> (bool \<times> db) py" where
  "delete_session f d session_token =
     (case f of
        ConnectFails \<Rightarrow> Inl UnboundLocalError
      | ExecuteFails \<Rightarrow> Inr (False, d)
      | NoFault \<Rightarrow>
          Inr (True, d\<lparr>sessions := filter (\<lambda>s. s_session_token s \<noteq> session_token) (sessions d)\<rparr>))"

definition search_users :: "fault \<Rightarrow> db \<Rightarrow> string \<Rightarrow> string \<Rightarrow> string list py" where
  "search_users f d query current_user =
     (case f of
        ConnectFails \<Rightarrow> Inl UnboundLocalError
      | ExecuteFails \<Rightarrow> Inr []
      | NoFault \<Rightarrow>
          Inr (take 10 (sort
            (filter (\<lambda>n. like (''%'' @ query @ ''%'') n \<and> n \<noteq> current_user)
               (map u_username (users d))))))"

definition get_all_users :: "fault \<Rightarrow> db \<Rightarrow> string \<Rightarrow> string list py" where
  "get_all_users f d current_user =
     (case f of
        ConnectFails \<Rightarrow> Inl UnboundLocalError
      | ExecuteFails \<Rightarrow> Inr []
      | NoFault \<Rightarrow>
          Inr (sort (filter (\<lambda>n. n \<noteq> current_user) (map u_username (users d)))))"

section \<open>Requests, responses and the environment of a request\<close>

text \<open>
  A request carries the \<open>Authorization\<close> header, the JSON body (\<open>None\<close> when
  \<open>get_json()\<close> gives no body; otherwise a JSON object whose values are strings: a
  body that is a JSON string, number or list is outside the model) and the query
  parameters.
\<close>

record request =
  authorization :: "string option"
  json :: "(string \<rightharpoonup> string) option"
  args :: "string \<rightharpoonup> string"

text \<open>One constructor for each JSON body the routes send.\<close>

datatype body =
    Error string
  | Registered string
  | LoggedIn string string nat
  | LoggedOut
  | SessionValid string nat
  | SessionInvalid string
  | Users "string list"
  | PublicKey string string
  | Sent string string
  | Messages "message list" nat
  | Conversations "(string \<times> nat) list" nat
  | SearchResult "string list" string

type_synonym response = "body \<times> nat"

datatype db_method =
    Create_user | Get_user | Get_user_public_key | Store_message | Get_messages
  | Get_conversations | Create_session | Get_session | Delete_session | Search_users
  | Get_all_users

text \<open>
  What a request reads from outside the store: \<open>CURRENT_TIMESTAMP\<close> of SQLite (the time
  in UTC), \<open>datetime.now()\<close> of Python (the wall clock of the server, in its own time
  zone), which \<open>Database\<close> methods fail during the request (a route calls each method at
  most once), the token \<open>secrets.token_urlsafe(32)\<close> returns and the salt of
  \<open>generate_password_hash\<close>.
\<close>

record env =
  clock :: nat
  local_now :: nat
  faults :: "db_method \<Rightarrow> fault"
  token_urlsafe :: string
  gen_salt :: string

definition timedelta_hours :: "nat \<Rightarrow> nat" where
  \<comment> \<open>\<open>timedelta(hours=n)\<close>, in microseconds\<close>
  "timedelta_hours n = n * 3600 * 1000000"

definition generate_password_hash :: "string \<Rightarrow> string \<Rightarrow> pwhash" where
  "generate_password_hash salt password = Pbkdf2 salt password"

fun check_password_hash :: "pwhash \<Rightarrow> string \<Rightarrow> bool" where
  "check_password_hash (Pbkdf2 salt p) password = (p = password)"

definition internal_error :: response where
  \<comment> \<open>the \<open>except Exception\<close> block of every route, and the 500 handler of app.py\<close>
  "internal_error = (Error ''Internal server error'', 500)"

definition first_missing :: "(string \<rightharpoonup> string) \<Rightarrow> string list \<Rightarrow> string option" where
  \<comment> \<open>the first \<open>field\<close> with \<open>field not in data or not data[field]\<close>\<close>
  "first_missing data required_fields =
     find (\<lambda>field. case data field of None \<Rightarrow> True | Some v \<Rightarrow> v = []) required_fields"

definition bearer_token :: "string \<Rightarrow> string py" where
  \<comment> \<open>\<open>auth_header.split(' ')[1]\<close>\<close>
  "bearer_token auth_header =
     (case split_on CHR '' '' auth_header of
        a # t # r \<Rightarrow> Inr t
      | _ \<Rightarrow> Inl IndexError)"

section \<open>routes/auth.py\<close>

definition register :: "env \<Rightarrow> db \<Rightarrow> request \<Rightarrow> response \<times> db" where
  "register e d req =
     (case json req of
        None \<Rightarrow> (internal_error, d)
      | Some data \<Rightarrow>
          (case first_missing data [''username'', ''password'', ''public_key''] of
             Some field \<Rightarrow> ((Error (''Missing required field: '' @ field), 400), d)
           | None \<Rightarrow>
               (case (data ''username'', data ''password'', data ''public_key'') of
                  (Some raw, Some password, Some public_key) \<Rightarrow>
                    (let username = strip raw
                     in if length username < 3 \<or> 50 < length username
                        then ((Error ''Username must be between 3 and 50 characters'', 400), d)
                        else if \<not> isalnum (replace CHR ''-'' (replace CHR ''_'' username))
                        then ((Error ''Username can only contain letters, numbers, hyphens, and underscores'',
                                400), d)
                        else if length password < 6
                        then ((Error ''Password must be at least 6 characters long'', 400), d)
                        else
                          (case create_user (faults e Create_user) (clock e) d username
                                  (generate_password_hash (gen_salt e) password) public_key of
                             Inl ex \<Rightarrow> (internal_error, d)
                           | Inr (True, d') \<Rightarrow> ((Registered username, 201), d')
                           | Inr (False, d') \<Rightarrow> ((Error ''Username already exists'', 409), d')))
                | _ \<Rightarrow> (internal_error, d))))"

definition login :: "env \<Rightarrow> db \<Rightarrow> request \<Rightarrow> response \<times> db" where
  "login e d req =
     (case json req of
        None \<Rightarrow> (internal_error, d)
      | Some data \<Rightarrow>
          (case (data ''username'', data ''password'') of
             (Some raw, Some password) \<Rightarrow>
               (let username = strip raw
                in case get_user (faults e Get_user) d username of
                     Inl ex \<Rightarrow> (internal_error, d)
                   | Inr None \<Rightarrow> ((Error ''Invalid username or password'', 401), d)
                   | Inr (Some user) \<Rightarrow>
                       if \<not> check_password_hash (u_password_hash user) password
                       then ((Error ''Invalid username or password'', 401), d)
                       else
                         (let session_token = token_urlsafe e;
                              expires_at = local_now e + timedelta_hours 24
                          in case create_session (faults e Create_session) (clock e) d
                                    username session_token expires_at of
                               Inl ex \<Rightarrow> (internal_error, d)
                             | Inr (True, d') \<Rightarrow>
                                 ((LoggedIn session_token username expires_at, 200), d')
                             | Inr (False, d') \<Rightarrow>
                                 ((Error ''Failed to create session'', 500), d')))
           | _ \<Rightarrow> ((Error ''Username and password are required'', 400), d)))"

definition logout :: "env \<Rightarrow> db \<Rightarrow> request \<Rightarrow> response \<times> db" where
  "logout e d req =
     (case authorization req of
        None \<Rightarrow> ((Error ''Missing or invalid authorization header'', 401), d)
      | Some auth_header \<Rightarrow>
          if \<not> startswith auth_header ''Bearer ''
          then ((Error ''Missing or invalid authorization header'', 401), d)
          else
            (case bearer_token auth_header of
               Inl ex \<Rightarrow> (internal_error, d)
             | Inr session_token \<Rightarrow>
                 (case delete_session (faults e Delete_session) d session_token of
                    Inl ex \<Rightarrow> (internal_error, d)
                  | Inr (True, d') \<Rightarrow> ((LoggedOut, 200), d')
                  | Inr (False, d') \<Rightarrow> ((Error ''Invalid session'', 401), d'))))"

definition verify_session :: "env \<Rightarrow> db \<Rightarrow> request \<Rightarrow> response \<times> db" where
  "verify_session e d req =
     (case authorization req of
        None \<Rightarrow> ((Error ''Missing or invalid authorization header'', 401), d)
      | Some auth_header \<Rightarrow>
          if \<not> startswith auth_header ''Bearer ''
          then ((Error ''Missing or invalid authorization header'', 401), d)
          else
            (case bearer_token auth_header of
               Inl ex \<Rightarrow> (internal_error, d)
             | Inr session_token \<Rightarrow>
                 (case get_session (faults e Get_session) (clock e) d session_token of
                    Inl ex \<Rightarrow> (internal_error, d)
                  | Inr (Some session) \<Rightarrow>
                      ((SessionValid (s_username session) (s_expires_at session), 200), d)
                  | Inr None \<Rightarrow> ((SessionInvalid ''Invalid or expired session'', 401), d))))"

text \<open>
  The decorator. The wrapped route reads \<open>request.current_user\<close>; the model hands it the
  user name as its last argument. An exception of \<open>get_session\<close> is raised outside
  every \<open>try\<close> and reaches the 500 handler that app.py registers (under
  \<open>debug=True\<close> Flask answers 500 with its own page instead).
\<close>

definition require_auth ::
  "(env \<Rightarrow> db \<Rightarrow> request \<Rightarrow> string \<Rightarrow> response \<times> db) \<Rightarrow> env \<Rightarrow> db \<Rightarrow> request \<Rightarrow> response \<times> db" where
  "require_auth f e d req =
     (case authorization req of
        None \<Rightarrow> ((Error ''Missing or invalid authorization header'', 401), d)
      | Some auth_header \<Rightarrow>
          if \<not> startswith auth_header ''Bearer ''
          then ((Error ''Missing or invalid authorization header'', 401), d)
          else
            (case bearer_token auth_header of
               Inl ex \<Rightarrow> (internal_error, d)
             | Inr session_token \<Rightarrow>
                 (case get_session (faults e Get_session) (clock e) d session_token of
                    Inl ex \<Rightarrow> (internal_error, d)
                  | Inr None \<Rightarrow> ((Error ''Invalid or expired session'', 401), d)
                  | Inr (Some session) \<Rightarrow> f e d req (s_username session))))"

section \<open>routes/chat.py\<close>

definition get_users :: "env \<Rightarrow> db \<Rightarrow> request \<Rightarrow> response \<times> db" where
  "get_users =
     require_auth (\<lambda>e d req current_user.
       case get_all_users (faults e Get_all_users) d current_user of
         Inl ex \<Rightarrow> (internal_error, d)
       | Inr names \<Rightarrow> ((Users names, 200), d))"

definition get_public_key :: "string \<Rightarrow> env \<Rightarrow> db \<Rightarrow> request \<Rightarrow> response \<times> db" where
  "get_public_key username =
     require_auth (\<lambda>e d req current_user.
       case get_user_public_key (faults e Get_user_public_key) d username of
         Inl ex \<Rightarrow> (internal_error, d)
       | Inr None \<Rightarrow> ((Error ''User not found'', 404), d)
       | Inr (Some public_key) \<Rightarrow>
           if public_key \<noteq> [] then ((PublicKey username public_key, 200), d)
           else ((Error ''User not found'', 404), d))"

definition send_message :: "env \<Rightarrow> db \<Rightarrow> request \<Rightarrow> response \<times> db" where
  "send_message =
     require_auth (\<lambda>e d req current_user.
       case json req of
         None \<Rightarrow> (internal_error, d)
       | Some data \<Rightarrow>
           (case first_missing data [''receiver_username'', ''encrypted_content'', ''iv''] of
              Some field \<Rightarrow> ((Error (''Missing required field: '' @ field), 400), d)
            | None \<Rightarrow>
                (case (data ''receiver_username'', data ''encrypted_content'', data ''iv'') of
                   (Some receiver_username, Some encrypted_content, Some iv) \<Rightarrow>
                     (case get_user (faults e Get_user) d receiver_username of
                        Inl ex \<Rightarrow> (internal_error, d)
                      | Inr None \<Rightarrow> ((Error ''Receiver not found'', 404), d)
                      | Inr (Some receiver) \<Rightarrow>
                          (case store_message (faults e Store_message) (clock e) d current_user
                                  receiver_username encrypted_content iv
                                  (data ''encrypted_session_key'') of
                             Inl ex \<Rightarrow> (internal_error, d)
                           | Inr (True, d') \<Rightarrow> ((Sent current_user receiver_username, 201), d')
                           | Inr (False, d') \<Rightarrow> ((Error ''Failed to send message'', 500), d')))
                 | _ \<Rightarrow> (internal_error, d))))"

definition get_messages_route :: "env \<Rightarrow> db \<Rightarrow> request \<Rightarrow> response \<times> db" where
  \<comment> \<open>\<open>get_messages\<close> of chat.py\<close>
  "get_messages_route =
     require_auth (\<lambda>e d req current_user.
       case get_messages (faults e Get_messages) d current_user (args req ''with'') of
         Inl ex \<Rightarrow> (internal_error, d)
       | Inr ms \<Rightarrow> ((Messages ms (length ms), 200), d))"

definition get_conversations_route :: "env \<Rightarrow> db \<Rightarrow> request \<Rightarrow> response \<times> db" where
  \<comment> \<open>\<open>get_conversations\<close> of chat.py\<close>
  "get_conversations_route =
     require_auth (\<lambda>e d req current_user.
       case get_conversations (faults e Get_conversations) d current_user of
         Inl ex \<Rightarrow> (internal_error, d)
       | Inr cs \<Rightarrow> ((Conversations cs (length cs), 200), d))"

definition search_users_route :: "env \<Rightarrow> db \<Rightarrow> request \<Rightarrow> response \<times> db" where
  \<comment> \<open>\<open>search_users\<close> of chat.py\<close>
  "search_users_route =
     require_auth (\<lambda>e d req current_user.
       let query = strip (case args req ''q'' of None \<Rightarrow> [] | Some q \<Rightarrow> q)
       in if length query < 2
          then ((Error ''Search query must be at least 2 characters'', 400), d)
          else
            (case search_users (faults e Search_users) d query current_user of
               Inl ex \<Rightarrow> (internal_error, d)
             | Inr matching_users \<Rightarrow> ((SearchResult (take 10 matching_users) query, 200), d)))"

section \<open>Vocabulary of the specification\<close>

definition involves :: "string \<Rightarrow> message \<Rightarrow> bool" where
  \<comment> \<open>the user is the sender or the receiver of the row\<close>
  "involves v m = (m_sender_username m = v \<or> m_receiver_username m = v)"

definition exchanged :: "string \<Rightarrow> string \<Rightarrow> message \<Rightarrow> bool" where
  \<comment> \<open>the row belongs to the exchange between the two users, in either direction\<close>
  "exchanged u v m =
     ((m_sender_username m = u \<and> m_receiver_username m = v)
      \<or> (m_sender_username m = v \<and> m_receiver_username m = u))"

text \<open>
  A registration request that gets past the checks of \<open>register\<close>: a JSON object whose
  \<open>username\<close> strips to \<open>u\<close>, accepted by the length and character tests, with a
  password of six characters or more and a public key.
\<close>

definition valid_registration :: "request \<Rightarrow> string \<Rightarrow> string \<Rightarrow> string \<Rightarrow> bool" where
  "valid_registration req u password public_key =
     (case json req of
        None \<Rightarrow> False
      | Some data \<Rightarrow>
          (case data ''username'' of
             None \<Rightarrow> False
           | Some raw \<Rightarrow>
               strip raw = u \<and> 3 \<le> length u \<and> length u \<le> 50
               \<and> isalnum (replace CHR ''-'' (replace CHR ''_'' u))
               \<and> data ''password'' = Some password \<and> 6 \<le> length password
               \<and> data ''public_key'' = Some public_key \<and> public_key \<noteq> []))"

text \<open>
  \<open>is_substring q s\<close> is Python's \<open>q in s\<close>; \<open>contains_nocase\<close> compares after folding
  the case of ASCII letters.
\<close>

fun is_substring :: "string \<Rightarrow> string \<Rightarrow> bool" where
  "is_substring q [] = (q = [])"
| "is_substring q (c # cs) = (take (length q) (c # cs) = q \<or> is_substring q cs)"

definition contains_nocase :: "string \<Rightarrow> string \<Rightarrow> bool" where
  "contains_nocase q s = is_substring (map sqlite3Tolower q) (map sqlite3Tolower s)"

text \<open>
  A route lets the failures of the store surface when its answer is the one it gives
  with no failure at all (it did not reach the failing call), or is a 500 response with
  the store unchanged.
\<close>

definition no_faults :: "env \<Rightarrow> env" where
  "no_faults e = e\<lparr>faults := (\<lambda>m. NoFault)\<rparr>"

definition surfaces :: "(env \<Rightarrow> db \<Rightarrow> request \<Rightarrow> response \<times> db) \<Rightarrow> env \<Rightarrow> db \<Rightarrow> request \<Rightarrow> bool" where
  "surfaces route e d req =
     (route e d req = route (no_faults e) d req
      \<or> (snd (fst (route e d req)) = 500 \<and> snd (route e d req) = d))"

section \<open>A store to run the model on\<close>

text \<open>
  Three users, five messages and one session; environments with the clock of a server
  in UTC, without and with a failing method; requests with a \<open>Bearer\<close> header, a JSON
  body or a query.
\<close>

definition msg :: "nat \<Rightarrow> string \<Rightarrow> string \<Rightarrow> nat \<Rightarrow> message" where
  "msg i sender receiver t =
     \<lparr>m_id = i, m_sender_username = sender, m_receiver_username = receiver,
      m_encrypted_content = ''ct'', m_iv = ''iv'', m_encrypted_session_key = None,
      m_timestamp = t\<rparr>"

definition usr :: "nat \<Rightarrow> string \<Rightarrow> string \<Rightarrow> user" where
  "usr i name password =
     \<lparr>u_id = i, u_username = name, u_password_hash = Pbkdf2 ''salt'' password,
      u_public_key = ''pk-'' @ name, u_created_at = 1\<rparr>"

definition example_db :: db where
  "example_db =
     \<lparr>users = [usr 1 ''alice'' ''secret1'', usr 2 ''bob'' ''secret2'', usr 3 ''carol'' ''secret3''],
      messages =
        [msg 1 ''alice'' ''bob'' 10, msg 2 ''bob'' ''alice'' 20, msg 3 ''carol'' ''alice'' 15,
         msg 4 ''alice'' ''alice'' 30, msg 5 ''bob'' ''carol'' 40],
      sessions =
        [\<lparr>s_id = 1, s_username = ''alice'', s_session_token = ''tokA'', s_expires_at = 86500,
          s_created_at = 100\<rparr>],
      seq_users = 3, seq_messages = 5, seq_sessions = 1\<rparr>"

definition example_env :: "nat \<Rightarrow> env" where
  "example_env t =
     \<lparr>clock = t, local_now = t, faults = (\<lambda>m. NoFault), token_urlsafe = ''tokB'',
      gen_salt = ''salt''\<rparr>"

definition bearer_request :: "string \<Rightarrow> request" where
  "bearer_request tok =
     \<lparr>authorization = Some (''Bearer '' @ tok), json = None, args = Map.empty\<rparr>"

definition json_request :: "string option \<Rightarrow> (string \<times> string) list \<Rightarrow> request" where
  "json_request auth kvs =
     \<lparr>authorization = auth, json = Some (map_of kvs), args = Map.empty\<rparr>"

definition whoami :: "env \<Rightarrow> db \<Rightarrow> request \<Rightarrow> string \<Rightarrow> response \<times> db" where
  "whoami e d req current_user = ((Users [current_user], 200), d)"


definition failing_env :: "nat \<Rightarrow> db_method \<Rightarrow> fault \<Rightarrow> env" where
  "failing_env t method f =
     \<lparr>clock = t, local_now = t, faults = (\<lambda>m. if m = method then f else NoFault),
      token_urlsafe = ''tokB'', gen_salt = ''salt''\<rparr>"

definition query_request :: "string \<Rightarrow> string \<Rightarrow> request" where
  "query_request tok q =
     \<lparr>authorization = Some (''Bearer '' @ tok), json = None, args = [''q'' \<mapsto> q]\<rparr>"

section \<open>Helper lemmas\<close>






lemma split_on_hd: "\<exists>ws. split_on sep s = takeWhile (\<lambda>c. c \<noteq> sep) s # ws"
  by (induction s) (auto split: list.splits)

lemma bearer_token_Bearer:
  "bearer_token (''Bearer '' @ rest) = Inr (takeWhile (\<lambda>c. c \<noteq> CHR '' '') rest)"
  using split_on_hd[of "CHR '' ''" rest] by (auto simp: bearer_token_def)

lemma bearer_token_plain:
  "CHR '' '' \<notin> set tok \<Longrightarrow> bearer_token (''Bearer '' @ tok) = Inr tok"
  using bearer_token_Bearer[of tok] by (auto simp: takeWhile_eq_all_conv)

lemma startswith_Bearer: "startswith (''Bearer '' @ rest) ''Bearer ''"
  by (simp add: startswith_def)




lemma create_session_distinct:
  assumes "create_session f now d u tok x = Inr (b, d')"
    and "distinct (map s_session_token (sessions d))"
  shows "distinct (map s_session_token (sessions d'))"
  using assms by (auto simp: create_session_def split: fault.splits if_splits)



lemma get_user_unknown:
  assumes "\<forall>u \<in> set (users d). u_username u \<noteq> r"
  shows "get_user f d r = (case f of NoFault \<Rightarrow> Inr None | _ \<Rightarrow> Inl OperationalError)"
proof -
  have "find (\<lambda>u. u_username u = r) (users d) = None"
    using assms by (auto simp: find_None_iff)
  then show ?thesis by (simp add: get_user_def split: fault.splits)
qed

lemma require_auth_frame:
  assumes "\<And>current_user. snd (f e d req current_user) = d"
  shows "snd (require_auth f e d req) = d"
  using assms
  by (simp add: require_auth_def internal_error_def split: option.splits sum.splits)

lemma require_auth_accepts:
  assumes "authorization req = Some (''Bearer '' @ tok)" and "CHR '' '' \<notin> set tok"
    and "faults e Get_session = NoFault"
    and "get_session NoFault (clock e) d tok = Inr (Some s)"
  shows "require_auth f e d req = f e d req (s_username s)"
  using assms startswith_Bearer[of tok] bearer_token_plain[of tok]
  by (simp add: require_auth_def)

lemma strip_Nil: "strip [] = []"
  by (simp add: strip_def)

lemma register_valid:
  assumes "valid_registration req u p k" and "faults e Create_user = NoFault"
  shows "register e d req =
     (if u \<in> set (map u_username (users d))
      then ((Error ''Username already exists'', 409), d)
      else ((Registered u, 201),
             d\<lparr>users := users d @
                  [\<lparr>u_id = Suc (seq_users d), u_username = u,
                    u_password_hash = Pbkdf2 (gen_salt e) p, u_public_key = k,
                    u_created_at = clock e\<rparr>],
               seq_users := Suc (seq_users d)\<rparr>))"
proof -
  from assms(1) obtain data raw where d: "json req = Some data" "data ''username'' = Some raw"
    "strip raw = u" "3 \<le> length u" "length u \<le> 50"
    "isalnum (replace CHR ''-'' (replace CHR ''_'' u))"
    "data ''password'' = Some p" "6 \<le> length p" "data ''public_key'' = Some k" "k \<noteq> []"
    by (auto simp: valid_registration_def split: option.splits)
  have "raw \<noteq> []" using d(3,4) strip_Nil by auto
  moreover have "p \<noteq> []" using d(8) by auto
  ultimately have fm: "first_missing data [''username'', ''password'', ''public_key''] = None"
    using d by (simp add: first_missing_def)
  show ?thesis
    using d(3-6,8) assms(2)
    by (simp add: register_def d(1,2,7,9) fm create_user_def generate_password_hash_def)
qed

lemma like_percent: "like ''%'' s"
  by (induction s) auto

lemma like_two_then_any: "like ''__%'' s = (2 \<le> length s)"
proof (cases s)
  case Nil
  then show ?thesis by simp
next
  case (Cons a t)
  then show ?thesis using like_percent by (cases t) auto
qed

lemma like_any_two_any: "like ''%__%'' s = (2 \<le> length s)"
proof (induction s)
  case Nil
  then show ?case by simp
next
  case (Cons a s)
  have "like ''%__%'' (a # s) = (like ''__%'' (a # s) \<or> like ''%__%'' s)" by simp
  then show ?case unfolding like_two_then_any Cons.IH by auto
qed

lemma like_three_percent: "like ''%%%'' s"
  by (induction s) auto

lemma surfaces_register: "surfaces register e d req"
  by (cases "faults e Create_user")
    (auto simp: surfaces_def no_faults_def register_def create_user_def internal_error_def Let_def
      split: option.splits)

lemma surfaces_login: "surfaces login e d req"
  by (cases "faults e Get_user"; cases "faults e Create_session")
    (auto simp: surfaces_def no_faults_def login_def get_user_def create_session_def
      internal_error_def Let_def split: option.splits)

lemma surfaces_verify_session: "surfaces verify_session e d req"
  by (cases "faults e Get_session")
    (auto simp: surfaces_def no_faults_def verify_session_def get_session_def
      internal_error_def split: option.splits sum.splits)

lemma surfaces_require_auth:
  assumes "\<And>u. faults e Get_session = NoFault \<Longrightarrow>
             f e d req u = f (no_faults e) d req u
             \<or> (snd (fst (f e d req u)) = 500 \<and> snd (f e d req u) = d)"
  shows "surfaces (require_auth f) e d req"
proof (cases "faults e Get_session")
  case NoFault
  then have "require_auth f e d req = require_auth f (no_faults e) d req
      \<or> (snd (fst (require_auth f e d req)) = 500 \<and> snd (require_auth f e d req) = d)"
    using assms
    by (auto simp: require_auth_def internal_error_def no_faults_def
        split: option.splits sum.splits)
  then show ?thesis by (simp add: surfaces_def)
next
  case ConnectFails
  then show ?thesis
    by (auto simp: surfaces_def require_auth_def get_session_def internal_error_def no_faults_def
        split: option.splits sum.splits)
next
  case ExecuteFails
  then show ?thesis
    by (auto simp: surfaces_def require_auth_def get_session_def internal_error_def no_faults_def
        split: option.splits sum.splits)
qed

lemma surfaces_get_public_key: "surfaces (get_public_key u) e d req"
  unfolding get_public_key_def
  by (rule surfaces_require_auth, cases "faults e Get_user_public_key")
    (auto simp: no_faults_def get_user_public_key_def internal_error_def split: option.splits)

lemma surfaces_send_message: "surfaces send_message e d req"
  unfolding send_message_def
  by (rule surfaces_require_auth, cases "faults e Get_user"; cases "faults e Store_message")
    (auto simp: no_faults_def get_user_def store_message_def internal_error_def
      split: option.splits)

lemma surfaces_get_messages: "surfaces get_messages_route e d req"
  unfolding get_messages_route_def
  by (rule surfaces_require_auth, cases "faults e Get_messages")
    (auto simp: no_faults_def get_messages_def internal_error_def split: option.splits)

lemma surfaces_get_conversations: "surfaces get_conversations_route e d req"
  unfolding get_conversations_route_def
  by (rule surfaces_require_auth, cases "faults e Get_conversations")
    (auto simp: no_faults_def get_conversations_def internal_error_def split: option.splits)


lemma require_auth_Get_session_fails:
  assumes "faults e Get_session \<noteq> NoFault"
  shows "require_auth f e d req = (internal_error, d)
       \<or> require_auth f e d req = ((Error ''Missing or invalid authorization header'', 401), d)"
  using assms
  by (cases "faults e Get_session")
    (auto simp: require_auth_def get_session_def split: option.splits sum.splits)

lemma isalnum_bad_char:
  assumes "c \<in> set u" and "\<not> isalnum_char c" and "c \<noteq> CHR ''-''" and "c \<noteq> CHR ''_''"
  shows "\<not> isalnum (replace CHR ''-'' (replace CHR ''_'' u))"
  using assms by (auto simp: isalnum_def replace_def list_all_iff)

lemma register_rejects:
  assumes body: "json req = Some data" and name: "data ''username'' = Some raw"
    and bad: "length (strip raw) < 3 \<or> 50 < length (strip raw)
      \<or> (\<exists>c \<in> set (strip raw). \<not> isalnum_char c \<and> c \<noteq> CHR ''-'' \<and> c \<noteq> CHR ''_'')
      \<or> (\<exists>p. data ''password'' = Some p \<and> length p < 6)"
  shows "snd (fst (register e d req)) = 400 \<and> snd (register e d req) = d"
proof (cases "first_missing data [''username'', ''password'', ''public_key'']")
  case (Some field)
  then show ?thesis by (simp add: register_def body)
next
  case None
  then obtain p k where pk: "data ''password'' = Some p" "data ''public_key'' = Some k"
    by (auto simp: first_missing_def split: option.splits if_splits)
  from bad isalnum_bad_char[of _ "strip raw"]
  have "length (strip raw) < 3 \<or> 50 < length (strip raw)
      \<or> \<not> isalnum (replace CHR ''-'' (replace CHR ''_'' (strip raw))) \<or> length p < 6"
    using pk by auto
  then show ?thesis
    by (auto simp: register_def body None name pk Let_def)
qed

section \<open>Conversations and history (database.py)\<close>



text \<open>
  Claim C5, as the specification states it, for every pair of users: the history of
  \<open>u\<close> with \<open>v\<close> is the history of \<open>u\<close> filtered to the rows that involve \<open>v\<close>. It fails for
  \<open>u = v\<close>: alice's history with alice holds only the message she sent to herself,
  while every row of her history involves her.
\<close>

theorem history_filter_counterexample:
  "get_messages NoFault example_db ''alice'' (Some ''alice'') = Inr [msg 4 ''alice'' ''alice'' 30]
   \<and> get_messages NoFault example_db ''alice'' None
       = Inr [msg 1 ''alice'' ''bob'' 10, msg 3 ''carol'' ''alice'' 15, msg 2 ''bob'' ''alice'' 20,
              msg 4 ''alice'' ''alice'' 30]
   \<and> filter (involves ''alice'')
        [msg 1 ''alice'' ''bob'' 10, msg 3 ''carol'' ''alice'' 15, msg 2 ''bob'' ''alice'' 20,
         msg 4 ''alice'' ''alice'' 30]
       \<noteq> [msg 4 ''alice'' ''alice'' 30]"
  by (simp add: get_messages_def example_db_def msg_def involves_def)

text \<open>
  Claim C5, amended: for two distinct users \<open>u\<close> and \<open>v\<close> (the name of \<open>v\<close> not empty, as
  every registered name is), the history of \<open>u\<close> with \<open>v\<close> is the history of \<open>u\<close> filtered
  to the rows that involve \<open>v\<close>; it holds exactly the messages exchanged between the
  two, in either direction, in ascending order of timestamp; the history of \<open>u\<close> holds
  exactly the rows that involve \<open>u\<close>, in ascending order of timestamp.
\<close>

theorem history_filter:
  assumes "v \<noteq> []" and "u \<noteq> v"
  shows "\<exists>hu hv. get_messages NoFault d u None = Inr hu
           \<and> get_messages NoFault d u (Some v) = Inr hv
           \<and> hv = filter (involves v) hu
           \<and> mset hv = mset (filter (exchanged u v) (messages d))
           \<and> sorted (map m_timestamp hv)
           \<and> mset hu = mset (filter (involves u) (messages d))
           \<and> sorted (map m_timestamp hu)"
proof -
  have eq: "(\<lambda>m. involves u m \<and> involves v m) = exchanged u v"
    using assms(2) by (auto simp: involves_def exchanged_def fun_eq_iff)
  show ?thesis
    using assms(1)
    by (simp add: get_messages_def filter_sort eq flip: involves_def exchanged_def)
qed

theorem history_filter_witness:
  "get_messages NoFault example_db ''alice'' (Some ''bob'')
     = Inr [msg 1 ''alice'' ''bob'' 10, msg 2 ''bob'' ''alice'' 20]
   \<and> (\<exists>hu. get_messages NoFault example_db ''alice'' None = Inr hu
         \<and> filter (involves ''bob'') hu = [msg 1 ''alice'' ''bob'' 10, msg 2 ''bob'' ''alice'' 20])"
proof -
  have run: "get_messages NoFault example_db ''alice'' (Some ''bob'')
               = Inr [msg 1 ''alice'' ''bob'' 10, msg 2 ''bob'' ''alice'' 20]"
    by (simp add: get_messages_def example_db_def msg_def)
  have "''bob'' \<noteq> []" and "''alice'' \<noteq> ''bob''" by simp_all
  from history_filter[OF this, of example_db] run show ?thesis by auto
qed

section \<open>Sessions (routes/auth.py, database.py)\<close>




text \<open>
  Claim C3 says that logging out with a token that no session row holds answers 401
  \<open>Invalid session\<close>. The code does not: on the example store, which has no session
  with the token \<open>nope\<close>, \<open>logout\<close> answers 200. \<open>logout\<close> has the branch that answers 401
  \<open>Invalid session\<close>, for a \<open>delete_session\<close> that returns \<open>False\<close>; but
  \<open>delete_session\<close> returns \<open>True\<close> whenever its \<open>DELETE\<close> ran, without looking at the
  number of rows it removed, so the branch is taken only when the statement raises.
  \<open>verify_session\<close> and \<open>require_auth\<close> answer 401 for the same token.
\<close>

theorem logout_unknown_token:
  "logout (example_env 200) example_db (bearer_request ''nope'') = ((LoggedOut, 200), example_db)
   \<and> logout (example_env 200) example_db (bearer_request ''nope'')
       \<noteq> ((Error ''Invalid session'', 401), example_db)
   \<and> ''nope'' \<notin> set (map s_session_token (sessions example_db))"
  by (simp add: logout_def example_env_def bearer_request_def startswith_def bearer_token_def
      delete_session_def example_db_def)

text \<open>
  The same holds on every store: whatever the token, when no row holds it and the
  statement does not fail, \<open>logout\<close> answers 200 and never reaches its 401 branch.
\<close>

lemma logout_absent_token:
  assumes hdr: "authorization req = Some (''Bearer '' @ tok)"
    and tok: "CHR '' '' \<notin> set tok"
    and nofault: "faults e Delete_session = NoFault"
    and absent: "tok \<notin> set (map s_session_token (sessions d))"
  shows "logout e d req = ((LoggedOut, 200), d)"
proof -
  have "filter (\<lambda>s. s_session_token s \<noteq> tok) (sessions d) = sessions d"
    using absent by (auto simp: filter_id_conv)
  then have "delete_session NoFault d tok = Inr (True, d)"
    by (simp add: delete_session_def)
  then show ?thesis
    using startswith_Bearer[of tok] bearer_token_plain[OF tok] nofault
    by (simp add: logout_def hdr)
qed

section \<open>Sending a message (routes/chat.py)\<close>

text \<open>
  Claim C4. A send request whose \<open>receiver_username\<close> names no row of \<open>users\<close> leaves the
  store as it is, the table of messages included, whatever the header, the other fields
  and the failures of the store are; and when the request passes the guard and carries
  a non-empty receiver, content and iv, and the lookup of the receiver does not fail,
  the answer is 404 \<open>Receiver not found\<close>.
\<close>

theorem send_to_unknown_receiver:
  assumes body: "json req = Some data"
    and rcv: "data ''receiver_username'' = Some r"
    and unknown: "\<forall>u \<in> set (users d). u_username u \<noteq> r"
  shows "snd (send_message e d req) = d
       \<and> messages (snd (send_message e d req)) = messages d
       \<and> (\<forall>tok s ct iv.
             authorization req = Some (''Bearer '' @ tok) \<longrightarrow> CHR '' '' \<notin> set tok \<longrightarrow>
             faults e Get_session = NoFault \<longrightarrow>
             get_session NoFault (clock e) d tok = Inr (Some s) \<longrightarrow>
             faults e Get_user = NoFault \<longrightarrow>
             r \<noteq> [] \<longrightarrow>
             data ''encrypted_content'' = Some ct \<longrightarrow> ct \<noteq> [] \<longrightarrow>
             data ''iv'' = Some iv \<longrightarrow> iv \<noteq> [] \<longrightarrow>
             send_message e d req = ((Error ''Receiver not found'', 404), d))"
proof -
  let ?h = "\<lambda>e d req current_user.
       case json req of
         None \<Rightarrow> (internal_error, d)
       | Some data \<Rightarrow>
           (case first_missing data [''receiver_username'', ''encrypted_content'', ''iv''] of
              Some field \<Rightarrow> ((Error (''Missing required field: '' @ field), 400), d)
            | None \<Rightarrow>
                (case (data ''receiver_username'', data ''encrypted_content'', data ''iv'') of
                   (Some receiver_username, Some encrypted_content, Some iv) \<Rightarrow>
                     (case get_user (faults e Get_user) d receiver_username of
                        Inl ex \<Rightarrow> (internal_error, d)
                      | Inr None \<Rightarrow> ((Error ''Receiver not found'', 404), d)
                      | Inr (Some receiver) \<Rightarrow>
                          (case store_message (faults e Store_message) (clock e) d current_user
                                  receiver_username encrypted_content iv
                                  (data ''encrypted_session_key'') of
                             Inl ex \<Rightarrow> (internal_error, d)
                           | Inr (True, d') \<Rightarrow> ((Sent current_user receiver_username, 201), d')
                           | Inr (False, d') \<Rightarrow> ((Error ''Failed to send message'', 500), d')))
                 | _ \<Rightarrow> (internal_error, d)))"
  have sm: "send_message = require_auth ?h" by (simp add: send_message_def)
  have frame: "snd (?h e d req cu) = d" for cu
    by (simp add: body rcv get_user_unknown[OF unknown] split: option.splits fault.splits)
  have p1: "snd (send_message e d req) = d"
    unfolding sm by (rule require_auth_frame) (rule frame)
  have p3: "send_message e d req = ((Error ''Receiver not found'', 404), d)"
    if "authorization req = Some (''Bearer '' @ tok)" "CHR '' '' \<notin> set tok"
      "faults e Get_session = NoFault" "get_session NoFault (clock e) d tok = Inr (Some s)"
      "faults e Get_user = NoFault" "r \<noteq> []"
      "data ''encrypted_content'' = Some ct" "ct \<noteq> []" "data ''iv'' = Some iv" "iv \<noteq> []"
    for tok s ct iv
    unfolding sm require_auth_accepts[OF that(1-4)]
    using that(5-10)
    by (simp add: body rcv get_user_unknown[OF unknown] first_missing_def)
  from p1 p3 show ?thesis by metis
qed


theorem send_to_unknown_receiver_witness:
  "send_message (example_env 200) example_db
      (json_request (Some ''Bearer tokA'')
         [(''receiver_username'', ''dave''), (''encrypted_content'', ''ct1''), (''iv'', ''iv1'')])
     = ((Error ''Receiver not found'', 404), example_db)
   \<and> send_message (example_env 200) example_db
      (json_request (Some ''Bearer tokA'')
         [(''receiver_username'', ''bob''), (''encrypted_content'', ''ct1''), (''iv'', ''iv1'')])
     = ((Sent ''alice'' ''bob'', 201),
        example_db\<lparr>messages := messages example_db @
            [\<lparr>m_id = 6, m_sender_username = ''alice'', m_receiver_username = ''bob'',
              m_encrypted_content = ''ct1'', m_iv = ''iv1'', m_encrypted_session_key = None,
              m_timestamp = 200\<rparr>],
          seq_messages := 6\<rparr>)"
proof -
  let ?data = "map_of [(''receiver_username'', ''dave''), (''encrypted_content'', ''ct1''), (''iv'', ''iv1'')]"
  let ?req = "json_request (Some ''Bearer tokA'')
         [(''receiver_username'', ''dave''), (''encrypted_content'', ''ct1''), (''iv'', ''iv1'')]"
  let ?rowA = "\<lparr>s_id = 1, s_username = ''alice'', s_session_token = ''tokA'',
                s_expires_at = 86500, s_created_at = 100\<rparr>"
  have body: "json ?req = Some ?data" by (simp add: json_request_def)
  have rcv: "?data ''receiver_username'' = Some ''dave''" by simp
  have unknown: "\<forall>u \<in> set (users example_db). u_username u \<noteq> ''dave''"
    by (simp add: example_db_def usr_def)
  have hdr: "authorization ?req = Some (''Bearer '' @ ''tokA'')" by (simp add: json_request_def)
  have sp: "CHR '' '' \<notin> set ''tokA''" by simp
  have nf: "faults (example_env 200) Get_session = NoFault"
    and nu: "faults (example_env 200) Get_user = NoFault"
    by (simp_all add: example_env_def)
  have gs: "get_session NoFault (clock (example_env 200)) example_db ''tokA'' = Inr (Some ?rowA)"
    by (simp add: get_session_def example_env_def example_db_def)
  have ct: "?data ''encrypted_content'' = Some ''ct1''" and iv: "?data ''iv'' = Some ''iv1''"
    by simp_all
  have ne: "''dave'' \<noteq> []" "''ct1'' \<noteq> []" "''iv1'' \<noteq> []" by simp_all
  note nf404 = send_to_unknown_receiver[OF body rcv unknown, of "example_env 200",
      THEN conjunct2, THEN conjunct2, rule_format,
      OF hdr sp nf gs nu ne(1) ct ne(2) iv ne(3)]
  have sent: "send_message (example_env 200) example_db
      (json_request (Some ''Bearer tokA'')
         [(''receiver_username'', ''bob''), (''encrypted_content'', ''ct1''), (''iv'', ''iv1'')])
     = ((Sent ''alice'' ''bob'', 201),
        example_db\<lparr>messages := messages example_db @
            [\<lparr>m_id = 6, m_sender_username = ''alice'', m_receiver_username = ''bob'',
              m_encrypted_content = ''ct1'', m_iv = ''iv1'', m_encrypted_session_key = None,
              m_timestamp = 200\<rparr>],
          seq_messages := 6\<rparr>)"
    by (simp add: send_message_def require_auth_def json_request_def startswith_def
        bearer_token_def get_session_def example_env_def example_db_def first_missing_def
        get_user_def usr_def store_message_def)
  from nf404 sent show ?thesis by simp
qed

section \<open>Registration (routes/auth.py)\<close>

text \<open>
  Claim C7. Two valid registration requests carry the same user name \<open>u\<close> (compared
  after \<open>strip\<close>, character by character), no row of \<open>users\<close> has it yet, and
  \<open>create_user\<close> does not fail. Whichever of the two runs first answers 201 and adds
  the name; the other, run on the resulting store, answers 409 \<open>Username already exists\<close>
  and changes nothing. The insert with its uniqueness test is one step of the store, so
  these two orders are all there is. A valid request with any other new name, one that
  differs only in the case of a letter included, is still accepted afterwards.
\<close>

theorem register_twice:
  assumes v1: "valid_registration req1 u p1 k1"
    and v2: "valid_registration req2 u p2 k2"
    and fresh: "u \<notin> set (map u_username (users d))"
    and nf1: "faults e1 Create_user = NoFault"
    and nf2: "faults e2 Create_user = NoFault"
  shows "(\<exists>d1. register e1 d req1 = ((Registered u, 201), d1)
             \<and> register e2 d1 req2 = ((Error ''Username already exists'', 409), d1)
             \<and> map u_username (users d1) = map u_username (users d) @ [u]
             \<and> (\<forall>req3 u3 p3 k3 e3.
                   valid_registration req3 u3 p3 k3 \<longrightarrow> faults e3 Create_user = NoFault \<longrightarrow>
                   u3 \<noteq> u \<longrightarrow> u3 \<notin> set (map u_username (users d)) \<longrightarrow>
                   (\<exists>d3. register e3 d1 req3 = ((Registered u3, 201), d3))))
       \<and> (\<exists>d2. register e2 d req2 = ((Registered u, 201), d2)
             \<and> register e1 d2 req1 = ((Error ''Username already exists'', 409), d2))"
proof -
  have one: "\<exists>d1. register ea d ra = ((Registered u, 201), d1)
             \<and> register eb d1 rb = ((Error ''Username already exists'', 409), d1)
             \<and> map u_username (users d1) = map u_username (users d) @ [u]
             \<and> (\<forall>req3 u3 p3 k3 e3.
                   valid_registration req3 u3 p3 k3 \<longrightarrow> faults e3 Create_user = NoFault \<longrightarrow>
                   u3 \<noteq> u \<longrightarrow> u3 \<notin> set (map u_username (users d)) \<longrightarrow>
                   (\<exists>d3. register e3 d1 req3 = ((Registered u3, 201), d3)))"
    if "valid_registration ra u pa ka" "valid_registration rb u pb kb"
      "faults ea Create_user = NoFault" "faults eb Create_user = NoFault"
    for ea eb ra rb pa pb ka kb
  proof -
    define d1 where "d1 = d\<lparr>users := users d @
                  [\<lparr>u_id = Suc (seq_users d), u_username = u,
                    u_password_hash = Pbkdf2 (gen_salt ea) pa, u_public_key = ka,
                    u_created_at = clock ea\<rparr>],
               seq_users := Suc (seq_users d)\<rparr>"
    have names: "map u_username (users d1) = map u_username (users d) @ [u]"
      by (simp add: d1_def)
    have a: "register ea d ra = ((Registered u, 201), d1)"
      using fresh by (simp add: register_valid[OF that(1,3)] d1_def)
    have b: "register eb d1 rb = ((Error ''Username already exists'', 409), d1)"
      by (simp add: register_valid[OF that(2,4)] names)
    have c: "\<exists>d3. register e3 d1 req3 = ((Registered u3, 201), d3)"
      if "valid_registration req3 u3 p3 k3" "faults e3 Create_user = NoFault"
        "u3 \<noteq> u" "u3 \<notin> set (map u_username (users d))" for req3 u3 p3 k3 e3
      using that(3,4) by (simp add: register_valid[OF that(1,2)] names)
    from a b c names show ?thesis by blast
  qed
  from one[OF v1 v2 nf1 nf2] one[OF v2 v1 nf2 nf1] show ?thesis by blast
qed


theorem register_twice_witness:
  "register (example_env 300) example_db
      (json_request None [(''username'', '' dave ''), (''password'', ''secret4''), (''public_key'', ''pkD'')])
     = ((Registered ''dave'', 201),
        example_db\<lparr>users := users example_db @
            [\<lparr>u_id = 4, u_username = ''dave'', u_password_hash = Pbkdf2 ''salt'' ''secret4'',
              u_public_key = ''pkD'', u_created_at = 300\<rparr>],
          seq_users := 4\<rparr>)
   \<and> register (example_env 400)
        (example_db\<lparr>users := users example_db @
            [\<lparr>u_id = 4, u_username = ''dave'', u_password_hash = Pbkdf2 ''salt'' ''secret4'',
              u_public_key = ''pkD'', u_created_at = 300\<rparr>],
          seq_users := 4\<rparr>)
        (json_request None [(''username'', ''dave''), (''password'', ''another''), (''public_key'', ''pkX'')])
     = ((Error ''Username already exists'', 409),
        example_db\<lparr>users := users example_db @
            [\<lparr>u_id = 4, u_username = ''dave'', u_password_hash = Pbkdf2 ''salt'' ''secret4'',
              u_public_key = ''pkD'', u_created_at = 300\<rparr>],
          seq_users := 4\<rparr>)
   \<and> (\<exists>d3. register (example_env 500)
        (example_db\<lparr>users := users example_db @
            [\<lparr>u_id = 4, u_username = ''dave'', u_password_hash = Pbkdf2 ''salt'' ''secret4'',
              u_public_key = ''pkD'', u_created_at = 300\<rparr>],
          seq_users := 4\<rparr>)
        (json_request None [(''username'', ''Dave''), (''password'', ''secret5''), (''public_key'', ''pkE'')])
     = ((Registered ''Dave'', 201), d3))"
proof -
  let ?r1 = "json_request None [(''username'', '' dave ''), (''password'', ''secret4''), (''public_key'', ''pkD'')]"
  let ?r2 = "json_request None [(''username'', ''dave''), (''password'', ''another''), (''public_key'', ''pkX'')]"
  let ?r3 = "json_request None [(''username'', ''Dave''), (''password'', ''secret5''), (''public_key'', ''pkE'')]"
  let ?d1 = "example_db\<lparr>users := users example_db @
            [\<lparr>u_id = 4, u_username = ''dave'', u_password_hash = Pbkdf2 ''salt'' ''secret4'',
              u_public_key = ''pkD'', u_created_at = 300\<rparr>],
          seq_users := 4\<rparr>"
  have v1: "valid_registration ?r1 ''dave'' ''secret4'' ''pkD''"
    and v2: "valid_registration ?r2 ''dave'' ''another'' ''pkX''"
    and v3: "valid_registration ?r3 ''Dave'' ''secret5'' ''pkE''"
    by (simp_all add: valid_registration_def json_request_def strip_def isspace_char_def
        replace_def isalnum_def isalnum_char_def)
  have fresh: "''dave'' \<notin> set (map u_username (users example_db))"
    and fresh3: "''Dave'' \<notin> set (map u_username (users example_db))"
    by (simp_all add: example_db_def usr_def)
  have nf: "faults (example_env t) Create_user = NoFault" for t
    by (simp add: example_env_def)
  have run: "register (example_env 300) example_db ?r1 = ((Registered ''dave'', 201), ?d1)"
    by (subst register_valid[OF v1 nf]) (simp add: example_env_def example_db_def usr_def)
  from register_twice[OF v1 v2 fresh nf nf, of 300 400, THEN conjunct1]
  obtain d1 where d1: "register (example_env 300) example_db ?r1 = ((Registered ''dave'', 201), d1)"
    and second: "register (example_env 400) d1 ?r2 = ((Error ''Username already exists'', 409), d1)"
    and other: "\<forall>req3 u3 p3 k3 e3.
        valid_registration req3 u3 p3 k3 \<longrightarrow> faults e3 Create_user = NoFault \<longrightarrow>
        u3 \<noteq> ''dave'' \<longrightarrow> u3 \<notin> set (map u_username (users example_db)) \<longrightarrow>
        (\<exists>d3. register e3 d1 req3 = ((Registered u3, 201), d3))"
    by blast
  from d1 run have eq: "d1 = ?d1" by simp
  have "''Dave'' \<noteq> ''dave''" by simp
  with other v3 nf fresh3 have "\<exists>d3. register (example_env 500) d1 ?r3 = ((Registered ''Dave'', 201), d3)"
    by blast
  with run second show ?thesis unfolding eq by blast
qed

text \<open>
  Claim C9 says that a request that passes the three checks (a name of 3 to 50
  characters, made of letters, digits, hyphens and underscores only, and a password of
  six characters or more) with a new name is accepted. The code does not accept the
  name \<open>___\<close>: \<open>username.replace('_', '').replace('-', '')\<close> is the empty string, on
  which \<open>isalnum()\<close> is false, and the request is refused with the message that a name
  can only contain letters, numbers, hyphens and underscores. The refusals that the
  claim lists do hold, on the name after \<open>strip\<close> (lemma \<open>register_rejects\<close>).
\<close>

theorem register_underscores:
  "register (example_env 300) example_db
      (json_request None [(''username'', ''___''), (''password'', ''secret4''), (''public_key'', ''pkD'')])
     = ((Error ''Username can only contain letters, numbers, hyphens, and underscores'', 400),
        example_db)
   \<and> length ''___'' = 3
   \<and> list_all (\<lambda>c. isalnum_char c \<or> c = CHR ''-'' \<or> c = CHR ''_'') ''___''
   \<and> ''___'' \<notin> set (map u_username (users example_db))"
  by (simp add: register_def json_request_def first_missing_def strip_def isspace_char_def
      replace_def isalnum_def example_db_def usr_def)

section \<open>Searching and listing users (routes/chat.py, database.py)\<close>

text \<open>
  Claim C6 says that the search returns exactly the names that contain the query. The
  code passes the query into the \<open>LIKE\<close> pattern as it is: for the query \<open>a_o\<close> it
  returns \<open>carol\<close>, which does not contain \<open>a_o\<close>.
\<close>

theorem search_wildcard_query:
  "search_users_route (example_env 200) example_db (query_request ''tokA'' ''a_o'')
     = ((SearchResult [''carol''] ''a_o'', 200), example_db)
   \<and> \<not> contains_nocase ''a_o'' ''carol''"
  by (simp add: search_users_route_def require_auth_def query_request_def startswith_def
      bearer_token_def get_session_def example_env_def example_db_def usr_def strip_def
      isspace_char_def search_users_def sqlite3Tolower_def contains_nocase_def)

text \<open>
  Claim C10. The search matches a name against \<open>%\<close>, the query, \<open>%\<close>, and the
  characters \<open>_\<close> and \<open>%\<close> of the query are wildcards: the query \<open>__\<close> matches every
  name of two characters or more, the query \<open>%\<close> matches every name, so the search
  returns the first ten such names other than the requester's in ascending order. On
  the example store the query \<open>__\<close> returns \<open>bob\<close>, which does not contain \<open>__\<close>.
\<close>

theorem search_like_wildcards:
  "like (''%'' @ ''__'' @ ''%'') s = (2 \<le> length s)
   \<and> like (''%'' @ ''%'' @ ''%'') s
   \<and> search_users NoFault d ''__'' current_user
       = Inr (take 10 (sort (filter (\<lambda>n. 2 \<le> length n \<and> n \<noteq> current_user)
                               (map u_username (users d)))))
   \<and> search_users NoFault d ''%'' current_user
       = Inr (take 10 (sort (filter (\<lambda>n. n \<noteq> current_user) (map u_username (users d)))))
   \<and> search_users NoFault example_db ''__'' ''alice'' = Inr [''bob'', ''carol'']
   \<and> \<not> is_substring ''__'' ''bob''"
proof -
  have a: "like (''%'' @ ''__'' @ ''%'') s = (2 \<le> length s)" for s
    using like_any_two_any[of s] by simp
  have b: "like (''%'' @ ''%'' @ ''%'') s" for s
    using like_three_percent[of s] by simp
  have c: "search_users NoFault d ''__'' current_user
       = Inr (take 10 (sort (filter (\<lambda>n. 2 \<le> length n \<and> n \<noteq> current_user)
                               (map u_username (users d)))))"
    unfolding search_users_def a by simp
  have c': "search_users NoFault d ''%'' current_user
       = Inr (take 10 (sort (filter (\<lambda>n. n \<noteq> current_user) (map u_username (users d)))))"
    by (simp add: search_users_def like_three_percent)
  have d: "search_users NoFault example_db ''__'' ''alice'' = Inr [''bob'', ''carol'']"
    unfolding search_users_def a by (simp add: example_db_def usr_def)
  have e: "\<not> is_substring ''__'' ''bob''" by simp
  from a b c c' d e show ?thesis by blast
qed

section \<open>Failures of the store\<close>

text \<open>
  Claim C8, as the specification states it: no route turns a failure of the store into
  a success, user search and user listing in particular. It fails for these two: when
  the \<open>SELECT\<close> of \<open>search_users\<close> or of \<open>get_all_users\<close> raises, the method prints the
  error and returns the empty list, and the route answers 200 with no users, although
  the store holds matching users.
\<close>

theorem store_failure_swallowed:
  "search_users_route (failing_env 200 Search_users ExecuteFails) example_db
       (query_request ''tokA'' ''bo'')
     = ((SearchResult [] ''bo'', 200), example_db)
   \<and> search_users_route (example_env 200) example_db (query_request ''tokA'' ''bo'')
     = ((SearchResult [''bob''] ''bo'', 200), example_db)
   \<and> get_users (failing_env 200 Get_all_users ExecuteFails) example_db (bearer_request ''tokA'')
     = ((Users [], 200), example_db)
   \<and> get_users (example_env 200) example_db (bearer_request ''tokA'')
     = ((Users [''bob'', ''carol''], 200), example_db)"
  by (simp add: search_users_route_def get_users_def require_auth_def query_request_def
      bearer_request_def startswith_def bearer_token_def get_session_def failing_env_def
      example_env_def example_db_def usr_def strip_def isspace_char_def search_users_def
      get_all_users_def sqlite3Tolower_def)

text \<open>
  Claim C8, amended. Whatever fails in the store, each of \<open>register\<close>, \<open>login\<close>,
  \<open>verify_session\<close>, \<open>get_public_key\<close>, \<open>send_message\<close>, \<open>get_messages\<close> and
  \<open>get_conversations\<close> answers as it does with no failure, or answers 500 and leaves
  the store unchanged; every method is called once at most, so nothing is retried. When
  \<open>get_session\<close> fails, the guard answers 500, unless the header was missing or
  malformed (401). Behind the guard, a failing statement in \<open>get_all_users\<close> or
  \<open>search_users\<close> is caught in the store layer and the route answers 200 with an
  empty list; a failing connect in these two methods gives 500.
\<close>

theorem store_failures:
  "surfaces register e d req
   \<and> surfaces login e d req
   \<and> surfaces verify_session e d req
   \<and> surfaces (get_public_key u) e d req
   \<and> surfaces send_message e d req
   \<and> surfaces get_messages_route e d req
   \<and> surfaces get_conversations_route e d req
   \<and> (faults e Get_session \<noteq> NoFault \<longrightarrow>
         require_auth f e d req = (internal_error, d)
         \<or> require_auth f e d req = ((Error ''Missing or invalid authorization header'', 401), d))
   \<and> (\<forall>tok s.
         authorization req = Some (''Bearer '' @ tok) \<longrightarrow> CHR '' '' \<notin> set tok \<longrightarrow>
         faults e Get_session = NoFault \<longrightarrow>
         get_session NoFault (clock e) d tok = Inr (Some s) \<longrightarrow>
           (faults e Get_all_users = ExecuteFails \<longrightarrow> get_users e d req = ((Users [], 200), d))
         \<and> (faults e Get_all_users = ConnectFails \<longrightarrow> get_users e d req = (internal_error, d))
         \<and> (\<forall>q. args req ''q'' = Some q \<longrightarrow> 2 \<le> length (strip q) \<longrightarrow>
               (faults e Search_users = ExecuteFails \<longrightarrow>
                  search_users_route e d req = ((SearchResult [] (strip q), 200), d))
             \<and> (faults e Search_users = ConnectFails \<longrightarrow>
                  search_users_route e d req = (internal_error, d))))"
proof -
  have guard: "faults e Get_session \<noteq> NoFault \<longrightarrow>
         require_auth f e d req = (internal_error, d)
         \<or> require_auth f e d req = ((Error ''Missing or invalid authorization header'', 401), d)"
    using require_auth_Get_session_fails[of e f d req] by blast
  have swallow:
    "(faults e Get_all_users = ExecuteFails \<longrightarrow> get_users e d req = ((Users [], 200), d))
     \<and> (faults e Get_all_users = ConnectFails \<longrightarrow> get_users e d req = (internal_error, d))
     \<and> (\<forall>q. args req ''q'' = Some q \<longrightarrow> 2 \<le> length (strip q) \<longrightarrow>
           (faults e Search_users = ExecuteFails \<longrightarrow>
              search_users_route e d req = ((SearchResult [] (strip q), 200), d))
         \<and> (faults e Search_users = ConnectFails \<longrightarrow>
              search_users_route e d req = (internal_error, d)))"
    if "authorization req = Some (''Bearer '' @ tok)" "CHR '' '' \<notin> set tok"
      "faults e Get_session = NoFault" "get_session NoFault (clock e) d tok = Inr (Some s)"
    for tok s
    unfolding get_users_def search_users_route_def require_auth_accepts[OF that]
    by (auto simp: get_all_users_def search_users_def Let_def)
  show ?thesis
    apply (intro conjI)
            apply (rule surfaces_register surfaces_login surfaces_verify_session
              surfaces_get_public_key surfaces_send_message surfaces_get_messages
              surfaces_get_conversations guard)+
    apply (intro allI impI)
    apply (rule swallow; assumption)
    done
qed


theorem store_failures_witness:
  "snd (fst (send_message (failing_env 200 Store_message ExecuteFails) example_db
      (json_request (Some ''Bearer tokA'')
         [(''receiver_username'', ''bob''), (''encrypted_content'', ''ct1''), (''iv'', ''iv1'')])))
     = 500
   \<and> snd (send_message (failing_env 200 Store_message ExecuteFails) example_db
      (json_request (Some ''Bearer tokA'')
         [(''receiver_username'', ''bob''), (''encrypted_content'', ''ct1''), (''iv'', ''iv1'')]))
     = example_db
   \<and> require_auth whoami (failing_env 200 Get_session ExecuteFails) example_db
        (bearer_request ''tokA'')
     = (internal_error, example_db)
   \<and> get_users (failing_env 200 Get_all_users ExecuteFails) example_db (bearer_request ''tokA'')
     = ((Users [], 200), example_db)
   \<and> get_users (failing_env 200 Get_all_users ConnectFails) example_db (bearer_request ''tokA'')
     = (internal_error, example_db)
   \<and> search_users_route (failing_env 200 Search_users ExecuteFails) example_db
        (query_request ''tokA'' '' bo'')
     = ((SearchResult [] ''bo'', 200), example_db)
   \<and> search_users_route (failing_env 200 Search_users ConnectFails) example_db
        (query_request ''tokA'' '' bo'')
     = (internal_error, example_db)"
proof -
  let ?send = "json_request (Some ''Bearer tokA'')
         [(''receiver_username'', ''bob''), (''encrypted_content'', ''ct1''), (''iv'', ''iv1'')]"
  let ?rowA = "\<lparr>s_id = 1, s_username = ''alice'', s_session_token = ''tokA'',
                s_expires_at = 86500, s_created_at = 100\<rparr>"
  let ?e1 = "failing_env 200 Store_message ExecuteFails"
  let ?e2 = "failing_env 200 Get_session ExecuteFails"
  have differs: "send_message ?e1 example_db ?send \<noteq> send_message (no_faults ?e1) example_db ?send"
    by (simp add: send_message_def require_auth_def json_request_def startswith_def
        bearer_token_def get_session_def failing_env_def no_faults_def example_db_def
        first_missing_def get_user_def usr_def store_message_def)
  from store_failures[of ?e1 example_db ?send, THEN conjunct2, THEN conjunct2, THEN conjunct2,
      THEN conjunct2, THEN conjunct1] differs
  have c1: "snd (fst (send_message ?e1 example_db ?send)) = 500
            \<and> snd (send_message ?e1 example_db ?send) = example_db"
    by (simp add: surfaces_def)
  have fails: "faults ?e2 Get_session \<noteq> NoFault" by (simp add: failing_env_def)
  have header: "require_auth whoami ?e2 example_db (bearer_request ''tokA'')
      \<noteq> ((Error ''Missing or invalid authorization header'', 401), example_db)"
    by (simp add: require_auth_def bearer_request_def startswith_def bearer_token_def
        get_session_def failing_env_def internal_error_def)
  from store_failures[of ?e2 example_db _ _ whoami, THEN conjunct2, THEN conjunct2,
      THEN conjunct2, THEN conjunct2, THEN conjunct2, THEN conjunct2, THEN conjunct2,
      THEN conjunct1, THEN mp, OF fails, of "bearer_request ''tokA''"] header
  have c2: "require_auth whoami ?e2 example_db (bearer_request ''tokA'') = (internal_error, example_db)"
    by blast
  have hdr: "authorization (bearer_request ''tokA'') = Some (''Bearer '' @ ''tokA'')"
    and hdrq: "authorization (query_request ''tokA'' q) = Some (''Bearer '' @ ''tokA'')" for q
    by (simp_all add: bearer_request_def query_request_def)
  have sp: "CHR '' '' \<notin> set ''tokA''" by simp
  have nf: "faults (failing_env 200 Get_all_users f) Get_session = NoFault"
    and nfq: "faults (failing_env 200 Search_users f) Get_session = NoFault" for f
    by (simp_all add: failing_env_def)
  have gs: "get_session NoFault (clock (failing_env 200 m f)) example_db ''tokA'' = Inr (Some ?rowA)"
    for m f
    by (simp add: get_session_def failing_env_def example_db_def)
  have fa: "faults (failing_env 200 m f) m = f" for m f by (simp add: failing_env_def)
  have q: "args (query_request ''tokA'' '' bo'') ''q'' = Some '' bo''"
    and st: "strip '' bo'' = ''bo''"
    by (simp_all add: query_request_def strip_def isspace_char_def)
  have len: "2 \<le> length (strip '' bo'')" by (simp add: st)
  note sw = store_failures[THEN conjunct2, THEN conjunct2, THEN conjunct2, THEN conjunct2,
      THEN conjunct2, THEN conjunct2, THEN conjunct2, THEN conjunct2, rule_format]
  note lst = sw[where e = "failing_env 200 Get_all_users f" for f, OF hdr sp nf gs]
  note sch = sw[where e = "failing_env 200 Search_users f" for f, OF hdrq sp nfq gs]
  have c3: "get_users (failing_env 200 Get_all_users ExecuteFails) example_db (bearer_request ''tokA'')
     = ((Users [], 200), example_db)"
    by (rule lst[THEN conjunct1, THEN mp, OF fa])
  have c4: "get_users (failing_env 200 Get_all_users ConnectFails) example_db (bearer_request ''tokA'')
     = (internal_error, example_db)"
    by (rule lst[THEN conjunct2, THEN conjunct1, THEN mp, OF fa])
  have c5: "search_users_route (failing_env 200 Search_users ExecuteFails) example_db
        (query_request ''tokA'' '' bo'')
     = ((SearchResult [] (strip '' bo''), 200), example_db)"
    by (rule sch[THEN conjunct2, THEN conjunct2, rule_format, OF q len, THEN conjunct1, THEN mp, OF fa])
  have c6: "search_users_route (failing_env 200 Search_users ConnectFails) example_db
        (query_request ''tokA'' '' bo'')
     = (internal_error, example_db)"
    by (rule sch[THEN conjunct2, THEN conjunct2, rule_format, OF q len, THEN conjunct2, THEN mp, OF fa])
  from c1 c2 c3 c4 c5 c6 show ?thesis by (simp add: st)
qed

end
